theory Spec2Isabelle
  imports Main
begin

section \<open>Remote control navigation handler (js/remote-control.js)\<close>

text \<open>
  DOM elements are referred to by an identifier. A navigation item (an element matching
  \<^verbatim>\<open>.nav-item\<close>) carries the \<^verbatim>\<open>active\<close> class or not, and may contain a
  \<^verbatim>\<open>.nav-button\<close> element.
\<close>

type_synonym elem = nat

record nav_item =
  active :: bool
  button :: "elem option"

text \<open>
  The handler's fields \<^verbatim>\<open>currentFocus\<close>, \<^verbatim>\<open>navItems\<close>, \<^verbatim>\<open>isNavigating\<close>, together
  with the parts of the page the handler reads and writes: the element holding input focus
  (\<^verbatim>\<open>document.activeElement\<close>, \<open>None\<close> when no element holds it), the element with id
  \<^verbatim>\<open>home-btn\<close> if the page has one, and the \<^verbatim>\<open>click()\<close> calls issued so far.
\<close>

record state =
  currentFocus :: int
  navItems :: "nav_item list"
  isNavigating :: bool
  activeElement :: "elem option"
  homeButton :: "elem option"
  clicks :: "elem list"

definition blur :: "elem \<Rightarrow> elem option \<Rightarrow> elem option" where
  "blur e a = (if a = Some e then None else a)"

definition blurButton :: "nav_item \<Rightarrow> elem option \<Rightarrow> elem option" where
  "blurButton item a = (case button item of None \<Rightarrow> a | Some b \<Rightarrow> blur b a)"

definition focusButton :: "nav_item \<Rightarrow> elem option \<Rightarrow> elem option" where
  "focusButton item a = (case button item of None \<Rightarrow> a | Some b \<Rightarrow> Some b)"

text \<open>
  \<^verbatim>\<open>setFocus(index)\<close>: the \<^verbatim>\<open>forEach\<close> removes the class from every item and blurs every
  button; only then, and only for an index inside the array, the index is stored and the
  item marked and focused.
\<close>

definition setFocus :: "int \<Rightarrow> state \<Rightarrow> state" where
  "setFocus index s =
     (let items = map (\<lambda>item. item\<lparr>active := False\<rparr>) (navItems s);
          a = fold blurButton (navItems s) (activeElement s);
          s1 = s\<lparr>navItems := items, activeElement := a\<rparr>
      in if 0 \<le> index \<and> index < int (length items) then
           s1\<lparr>currentFocus := index,
              navItems := items[nat index := (items ! nat index)\<lparr>active := True\<rparr>],
              activeElement := focusButton (items ! nat index) a\<rparr>
         else s1)"

text \<open>The sounds are played inside a \<^verbatim>\<open>try\<close> whose \<^verbatim>\<open>catch\<close> is empty; they touch no field.\<close>

definition playNavigationSound :: "state \<Rightarrow> state" where
  "playNavigationSound s = s"

definition playSelectionSound :: "state \<Rightarrow> state" where
  "playSelectionSound s = s"

definition navigateLeft :: "state \<Rightarrow> state" where
  "navigateLeft s =
     playNavigationSound
       (if currentFocus s > 0 then setFocus (currentFocus s - 1) s
        else setFocus (int (length (navItems s)) - 1) s)"

definition navigateRight :: "state \<Rightarrow> state" where
  "navigateRight s =
     playNavigationSound
       (if currentFocus s < int (length (navItems s)) - 1 then setFocus (currentFocus s + 1) s
        else setFocus 0 s)"

definition navigateUp :: "state \<Rightarrow> state" where
  "navigateUp s = s"

definition navigateDown :: "state \<Rightarrow> state" where
  "navigateDown s = s"

definition click :: "elem \<Rightarrow> state \<Rightarrow> state" where
  "click e s = s\<lparr>clicks := clicks s @ [e]\<rparr>"

text \<open>
  \<^verbatim>\<open>activateCurrentItem\<close>: \<^verbatim>\<open>navItems[currentFocus]\<close> is \<^verbatim>\<open>undefined\<close> outside the array,
  and then nothing happens.
\<close>

definition activateCurrentItem :: "state \<Rightarrow> state" where
  "activateCurrentItem s =
     (if 0 \<le> currentFocus s \<and> currentFocus s < int (length (navItems s)) then
        (case button (navItems s ! nat (currentFocus s)) of
           None \<Rightarrow> s
         | Some b \<Rightarrow> click b (playSelectionSound s))
      else s)"

definition handleBackNavigation :: "state \<Rightarrow> state" where
  "handleBackNavigation s =
     (case homeButton s of
        None \<Rightarrow> s
      | Some h \<Rightarrow> setFocus 0 (click h s))"

definition updateNavItems :: "nav_item list \<Rightarrow> state \<Rightarrow> state" where
  "updateNavItems items s = s\<lparr>navItems := items\<rparr>"

definition setInitialFocus :: "state \<Rightarrow> state" where
  "setInitialFocus s = (if length (navItems s) > 0 then setFocus 0 s else s)"

text \<open>
  \<^verbatim>\<open>init\<close> and \<^verbatim>\<open>reset\<close> read the page's \<^verbatim>\<open>.nav-item\<close> elements, given here as
  the argument \<open>items\<close>. The constructor starts from index 0, no items, not navigating.
\<close>

definition init :: "nav_item list \<Rightarrow> state \<Rightarrow> state" where
  "init items s = setInitialFocus (updateNavItems items s)"

definition reset :: "nav_item list \<Rightarrow> state \<Rightarrow> state" where
  "reset items s = (setInitialFocus (updateNavItems items s))\<lparr>isNavigating := False\<rparr>"

definition constructor :: "nav_item list \<Rightarrow> elem option \<Rightarrow> elem option \<Rightarrow> state" where
  "constructor items a h =
     init items \<lparr>currentFocus = 0, navItems = [], isNavigating = False,
                 activeElement = a, homeButton = h, clicks = []\<rparr>"

definition navigationKeys :: "nat list" where
  "navigationKeys = [37, 38, 39, 40, 13, 32]"

text \<open>
  \<^verbatim>\<open>handleKeyPress(event)\<close>: the first component of the result tells whether
  \<^verbatim>\<open>event.preventDefault()\<close> was called.
\<close>

definition handleKeyPress :: "nat \<Rightarrow> state \<Rightarrow> bool \<times> state" where
  "handleKeyPress keyCode s =
     (let nav = (keyCode \<in> set navigationKeys);
          s1 = (if nav then s\<lparr>isNavigating := True\<rparr> else s)
      in (nav,
          if keyCode = 37 then navigateLeft s1
          else if keyCode = 38 then navigateUp s1
          else if keyCode = 39 then navigateRight s1
          else if keyCode = 40 then navigateDown s1
          else if keyCode = 13 \<or> keyCode = 32 then activateCurrentItem s1
          else if keyCode = 27 then handleBackNavigation s1
          else s1\<lparr>isNavigating := False\<rparr>))"

subsection \<open>Content navigation\<close>

text \<open>
  \<^verbatim>\<open>enableContentNavigation(contentElement)\<close> keeps the focusable elements of the region
  and the variable \<^verbatim>\<open>contentFocus\<close> in a closure. The argument is \<open>None\<close> for a missing
  content element, otherwise the elements its \<^verbatim>\<open>querySelectorAll\<close> returns. Both early
  returns leave everything as it is and install no listener.
\<close>

record content_scope =
  focusableElements :: "elem list"
  contentFocus :: nat

definition enableContentNavigation :: "elem list option \<Rightarrow> state \<Rightarrow> content_scope option \<times> state" where
  "enableContentNavigation contentElement s =
     (case contentElement of
        None \<Rightarrow> (None, s)
      | Some els \<Rightarrow>
          if length els = 0 then (None, s)
          else (Some \<lparr>focusableElements = els, contentFocus = 0\<rparr>,
                s\<lparr>activeElement := Some (els ! 0)\<rparr>))"

datatype direction = Up | Down

definition navigateContent :: "direction \<Rightarrow> content_scope \<times> state \<Rightarrow> content_scope \<times> state" where
  "navigateContent d cs =
     (let sc = fst cs; s = snd cs; els = focusableElements sc;
          a = blur (els ! contentFocus sc) (activeElement s);
          cf = (case d of
                  Up \<Rightarrow> nat (max 0 (int (contentFocus sc) - 1))
                | Down \<Rightarrow> nat (min (int (length els) - 1) (int (contentFocus sc) + 1)))
      in (sc\<lparr>contentFocus := cf\<rparr>, s\<lparr>activeElement := Some (els ! cf)\<rparr>))"

text \<open>
  The listener installed on the content element. The first component of the result tells
  whether \<^verbatim>\<open>event.preventDefault()\<close> was called.
\<close>

definition contentKeydown :: "nat \<Rightarrow> content_scope \<times> state \<Rightarrow> bool \<times> content_scope \<times> state" where
  "contentKeydown keyCode cs =
     (if keyCode = 38 then (True, navigateContent Up cs)
      else if keyCode = 40 then (True, navigateContent Down cs)
      else if keyCode = 37 \<or> keyCode = 39 then (True, fst cs, setFocus (currentFocus (snd cs)) (snd cs))
      else (False, cs))"

subsection \<open>The focus invariant\<close>

text \<open>The positions of the items that carry the \<^verbatim>\<open>active\<close> class.\<close>

definition marked :: "state \<Rightarrow> nat list" where
  "marked s = filter (\<lambda>k. active (navItems s ! k)) [0..<length (navItems s)]"

definition focus_inv :: "state \<Rightarrow> bool" where
  "focus_inv s =
     (navItems s = [] \<or>
      (0 \<le> currentFocus s \<and> currentFocus s < int (length (navItems s)) \<and>
       marked s = [nat (currentFocus s)]))"

section \<open>Firefox OS API (js/firefox-os-api.js)\<close>

text \<open>
  A platform call either throws, or returns a request object on which the platform later
  fires \<^verbatim>\<open>onsuccess\<close> (with a result), fires \<^verbatim>\<open>onerror\<close> (with \<^verbatim>\<open>request.error\<close>), or
  fires nothing. The promise an accessor returns is resolved, rejected, or never settled.
\<close>

datatype error = Error string

datatype 'a request = Throws error | Succeeds 'a | Fails error | Silent

datatype 'a promise = Resolved 'a | Rejected error | Pending

datatype setting = Null | Undefined | Str string

record settings_provider =
  lock_get :: "string \<Rightarrow> (string \<rightharpoonup> string) request"
  lock_set :: "string \<Rightarrow> string \<Rightarrow> unit request"

text \<open>
  The values a cursor can hand over as \<^verbatim>\<open>request.result\<close>, with JavaScript's test
  \<^verbatim>\<open>if (value)\<close>: \<^verbatim>\<open>null\<close>, \<^verbatim>\<open>undefined\<close>, \<^verbatim>\<open>false\<close>, 0 and the empty string are falsy,
  every object (a \<^verbatim>\<open>File\<close>, given here by its name) is truthy.
\<close>

datatype js_value = JNull | JUndefined | JBool bool | JNumber int | JString string | JObject string

fun truthy :: "js_value \<Rightarrow> bool" where
  "truthy JNull = False"
| "truthy JUndefined = False"
| "truthy (JBool b) = b"
| "truthy (JNumber n) = (n \<noteq> 0)"
| "truthy (JString x) = (x \<noteq> [])"
| "truthy (JObject name) = True"

text \<open>
  \<^verbatim>\<open>storage.enumerate(path)\<close> throws or returns a cursor. The cursor's events answer, one
  by one, the call of \<^verbatim>\<open>enumerate\<close> and each later \<^verbatim>\<open>request.continue()\<close>:
  \<^verbatim>\<open>onsuccess\<close> with a \<^verbatim>\<open>request.result\<close>, or \<^verbatim>\<open>onerror\<close>.
\<close>

datatype cursor_event = OnSuccess js_value | OnError error

datatype enumeration = EnumThrows error | Cursor "cursor_event list"

record app =
  origin :: string
  launch :: "unit request"

record firefox_api =
  apps :: bool
  getInstalled :: "app list request"
  settings :: "settings_provider option"
  videoStorage :: "(string \<Rightarrow> enumeration) option"
  musicStorage :: "(string \<Rightarrow> enumeration) option"
  pictureStorage :: "(string \<Rightarrow> enumeration) option"

definition property :: "(string \<rightharpoonup> string) \<Rightarrow> string \<Rightarrow> setting" where
  "property obj key = (case obj key of None \<Rightarrow> Undefined | Some v \<Rightarrow> Str v)"

definition getSystemSetting :: "firefox_api \<Rightarrow> string \<Rightarrow> setting promise" where
  "getSystemSetting api key =
     (case settings api of
        None \<Rightarrow> Resolved Null
      | Some p \<Rightarrow>
          (case lock_get p key of
             Throws e \<Rightarrow> Resolved Null
           | Succeeds result \<Rightarrow> Resolved (property result key)
           | Fails e \<Rightarrow> Rejected e
           | Silent \<Rightarrow> Pending))"

definition setSystemSetting :: "firefox_api \<Rightarrow> string \<Rightarrow> string \<Rightarrow> bool promise" where
  "setSystemSetting api key v =
     (case settings api of
        None \<Rightarrow> Resolved False
      | Some p \<Rightarrow>
          (case lock_set p key v of
             Throws e \<Rightarrow> Resolved False
           | Succeeds u \<Rightarrow> Resolved True
           | Fails e \<Rightarrow> Rejected e
           | Silent \<Rightarrow> Pending))"

text \<open>
  The handlers of the enumeration. \<^verbatim>\<open>onsuccess\<close>: a truthy result (\<^verbatim>\<open>if (file)\<close>) is
  pushed and the cursor continued, any other result resolves with the files collected so
  far. \<^verbatim>\<open>onerror\<close> rejects. A cursor that stops firing leaves the promise unsettled.
\<close>

fun drain :: "cursor_event list \<Rightarrow> js_value list \<Rightarrow> js_value list promise" where
  "drain [] files = Pending"
| "drain (OnSuccess file # evs) files =
     (if truthy file then drain evs (files @ [file]) else Resolved files)"
| "drain (OnError e # evs) files = Rejected e"

text \<open>
  The \<^verbatim>\<open>switch\<close> on the storage type: \<open>None\<close> is its \<^verbatim>\<open>default\<close> branch, otherwise the
  field read, which is itself absent when the storage was never initialised.
\<close>

definition storageFor :: "firefox_api \<Rightarrow> string \<Rightarrow> (string \<Rightarrow> enumeration) option option" where
  "storageFor api storageType =
     (if storageType = ''videos'' then Some (videoStorage api)
      else if storageType = ''music'' then Some (musicStorage api)
      else if storageType = ''pictures'' then Some (pictureStorage api)
      else None)"

definition getStorageFiles :: "firefox_api \<Rightarrow> string \<Rightarrow> string \<Rightarrow> js_value list promise" where
  "getStorageFiles api storageType path =
     (case storageFor api storageType of
        None \<Rightarrow> Resolved []
      | Some None \<Rightarrow> Resolved []
      | Some (Some storage) \<Rightarrow>
          (case storage path of
             EnumThrows e \<Rightarrow> Resolved []
           | Cursor evs \<Rightarrow> drain evs []))"

text \<open>
  \<^verbatim>\<open>launchApp(appOrigin)\<close>: inside the \<^verbatim>\<open>onsuccess\<close> handler of the lookup,
  \<^verbatim>\<open>targetApp.launch()\<close> is called and \<^verbatim>\<open>resolve(true)\<close> follows at once. An exception of
  \<^verbatim>\<open>launch()\<close> leaves the handler before \<^verbatim>\<open>resolve\<close>, so the promise is never settled.
\<close>

definition launchApp :: "firefox_api \<Rightarrow> string \<Rightarrow> bool promise" where
  "launchApp api appOrigin =
     (if \<not> apps api then Resolved False
      else
        (case getInstalled api of
           Throws e \<Rightarrow> Resolved False
         | Succeeds installed \<Rightarrow>
             (case find (\<lambda>a. origin a = appOrigin) installed of
                None \<Rightarrow> Resolved False
              | Some targetApp \<Rightarrow>
                  (case launch targetApp of
                     Throws e \<Rightarrow> Pending
                   | Succeeds u \<Rightarrow> Resolved True
                   | Fails e \<Rightarrow> Resolved True
                   | Silent \<Rightarrow> Resolved True))
         | Fails e \<Rightarrow> Rejected e
         | Silent \<Rightarrow> Pending))"

section \<open>Panasonic TV API (js/panasonic-api.js)\<close>

record system_info =
  model :: string
  version :: string
  platform :: string
  firefoxOS :: "bool option"

text \<open>
  What \<^verbatim>\<open>getSystemInfo\<close> reads: \<^verbatim>\<open>window.panasonic.system\<close> (absent, or with a
  \<^verbatim>\<open>getInfo()\<close> that throws or returns), \<^verbatim>\<open>navigator.mozApps\<close> and
  \<^verbatim>\<open>window.firefoxOSAPI\<close>.
\<close>

datatype native_info = GetInfoThrows error | GetInfoReturns system_info

record environment =
  panasonic_system :: "native_info option"
  mozApps :: bool
  firefoxOSAPI :: "firefox_api option"

text \<open>The JavaScript \<^verbatim>\<open>value || default\<close> on a setting: the empty string is falsy too.\<close>

definition or_default :: "setting \<Rightarrow> string \<Rightarrow> string" where
  "or_default v d = (case v of Str x \<Rightarrow> (if x = [] then d else x) | Null \<Rightarrow> d | Undefined \<Rightarrow> d)"

text \<open>
  \<^verbatim>\<open>getFirefoxOSSystemInfo\<close> awaits both settings inside one \<^verbatim>\<open>try\<close>; a rejection of
  either makes it return \<^verbatim>\<open>null\<close> (\<open>None\<close>).
\<close>

definition getFirefoxOSSystemInfo :: "firefox_api option \<Rightarrow> system_info option promise" where
  "getFirefoxOSSystemInfo w =
     (case w of
        None \<Rightarrow> Resolved None
      | Some api \<Rightarrow>
          (case getSystemSetting api ''deviceinfo.hardware'' of
             Rejected e \<Rightarrow> Resolved None
           | Pending \<Rightarrow> Pending
           | Resolved deviceInfo \<Rightarrow>
               (case getSystemSetting api ''deviceinfo.os'' of
                  Rejected e \<Rightarrow> Resolved None
                | Pending \<Rightarrow> Pending
                | Resolved osInfo \<Rightarrow>
                    Resolved (Some \<lparr>model = or_default deviceInfo ''Panasonic TV'',
                                    version = or_default osInfo ''1.0'',
                                    platform = ''Panasonic TV (Firefox OS)'',
                                    firefoxOS = Some True\<rparr>))))"

definition fallback_info :: system_info where
  "fallback_info = \<lparr>model = ''Unknown Panasonic TV'', version = ''1.0'',
                     platform = ''Panasonic TV (Firefox OS-based)'', firefoxOS = None\<rparr>"

text \<open>
  \<^verbatim>\<open>getSystemInfo\<close> is not an \<^verbatim>\<open>async\<close> function: it returns a record, or, on the
  Firefox OS path, the promise of \<^verbatim>\<open>getFirefoxOSSystemInfo\<close> as it is.
\<close>

datatype info_result = Direct system_info | Async "system_info option promise"

definition getSystemInfo :: "environment \<Rightarrow> info_result" where
  "getSystemInfo env =
     (case panasonic_system env of
        Some (GetInfoReturns info) \<Rightarrow> Direct info
      | Some (GetInfoThrows e) \<Rightarrow> Direct fallback_info
      | None \<Rightarrow>
          if mozApps env \<and> firefoxOSAPI env \<noteq> None
          then Async (getFirefoxOSSystemInfo (firefoxOSAPI env))
          else Direct fallback_info)"

subsection \<open>TV keys\<close>

datatype tv_key = RED | GREEN | YELLOW | BLUE | BACK | MENU | INFO | EXIT

fun tvKeyCodes :: "tv_key \<Rightarrow> nat" where
  "tvKeyCodes RED = 403"
| "tvKeyCodes GREEN = 404"
| "tvKeyCodes YELLOW = 405"
| "tvKeyCodes BLUE = 406"
| "tvKeyCodes BACK = 461"
| "tvKeyCodes MENU = 457"
| "tvKeyCodes INFO = 457"
| "tvKeyCodes EXIT = 27"

text \<open>
  \<^verbatim>\<open>handleTVKeys(event)\<close>, a second \<^verbatim>\<open>keydown\<close> listener of the document, installed in
  a TV environment only. The back key dispatches \<^verbatim>\<open>tvBackButton\<close>, whose listener is the
  handler's \<^verbatim>\<open>handleBackNavigation\<close>; the exit key asks for confirmation and leaves the
  page, which changes nothing of the navigation state. The first component of the result
  tells whether \<^verbatim>\<open>event.preventDefault()\<close> was called.
\<close>

definition handleTVKeys :: "nat \<Rightarrow> state \<Rightarrow> bool \<times> state" where
  "handleTVKeys keyCode s =
     (if keyCode = tvKeyCodes RED then (True, s)
      else if keyCode = tvKeyCodes GREEN then (True, s)
      else if keyCode = tvKeyCodes YELLOW then (True, s)
      else if keyCode = tvKeyCodes BLUE then (True, s)
      else if keyCode = tvKeyCodes BACK then (True, handleBackNavigation s)
      else if keyCode = tvKeyCodes MENU then (True, s)
      else if keyCode = tvKeyCodes EXIT then (True, s)
      else (False, s))"

text \<open>
  A \<^verbatim>\<open>keydown\<close> event on the document reaches every listener installed there: the
  handler's always, the TV listener when a TV environment was detected.
\<close>

definition keydown :: "bool \<Rightarrow> nat \<Rightarrow> state \<Rightarrow> bool \<times> state" where
  "keydown isTV keyCode s =
     (let r1 = handleKeyPress keyCode s;
          r2 = (if isTV then handleTVKeys keyCode (snd r1) else (False, snd r1))
      in (fst r1 \<or> fst r2, snd r2))"

text \<open>
  A key pressed while an element of the content region holds the input focus: the
  \<^verbatim>\<open>keydown\<close> event is handled by the listener of the content element and, as that listener
  calls \<^verbatim>\<open>preventDefault\<close> but never \<^verbatim>\<open>stopPropagation\<close>, goes on to the listeners of
  the document.
\<close>

definition contentKeyEvent :: "bool \<Rightarrow> nat \<Rightarrow> content_scope \<times> state \<Rightarrow> bool \<times> content_scope \<times> state" where
  "contentKeyEvent isTV keyCode cs =
     (let r1 = contentKeydown keyCode cs;
          r2 = keydown isTV keyCode (snd (snd r1))
      in (fst r1 \<or> fst r2, fst (snd r1), snd r2))"

section \<open>Engine operations\<close>

text \<open>
  The operations that reach the handler, with the content region as an optional second
  component of the state.
\<close>

datatype engine_op =
    Init "nav_item list"
  | Reset "nav_item list"
  | MoveLeft
  | MoveRight
  | MoveUp
  | MoveDown
  | Activate
  | BackNavigate
  | KeyDown bool nat
  | EnterContentScope "elem list option"
  | ContentKeyDown nat

fun apply_op :: "engine_op \<Rightarrow> state \<times> content_scope option \<Rightarrow> state \<times> content_scope option" where
  "apply_op (Init items) (s, sc) = (init items s, sc)"
| "apply_op (Reset items) (s, sc) = (reset items s, sc)"
| "apply_op MoveLeft (s, sc) = (navigateLeft s, sc)"
| "apply_op MoveRight (s, sc) = (navigateRight s, sc)"
| "apply_op MoveUp (s, sc) = (navigateUp s, sc)"
| "apply_op MoveDown (s, sc) = (navigateDown s, sc)"
| "apply_op Activate (s, sc) = (activateCurrentItem s, sc)"
| "apply_op BackNavigate (s, sc) = (handleBackNavigation s, sc)"
| "apply_op (KeyDown isTV keyCode) (s, sc) = (snd (keydown isTV keyCode s), sc)"
| "apply_op (EnterContentScope contentElement) (s, sc) =
     (case enableContentNavigation contentElement s of
        (None, s') \<Rightarrow> (s', sc)
      | (Some c, s') \<Rightarrow> (s', Some c))"
| "apply_op (ContentKeyDown keyCode) (s, sc) =
     (case sc of
        None \<Rightarrow> (s, sc)
      | Some c \<Rightarrow> (snd (snd (contentKeydown keyCode (c, s))), Some (fst (snd (contentKeydown keyCode (c, s))))))"

section \<open>Example inputs\<close>

text \<open>Three items with a button each, the last one focused; the first button is the home button.\<close>

definition example_state :: state where
  "example_state =
     \<lparr>currentFocus = 2,
      navItems = [\<lparr>active = False, button = Some 10\<rparr>,
                  \<lparr>active = False, button = Some 11\<rparr>,
                  \<lparr>active = True, button = Some 12\<rparr>],
      isNavigating = False, activeElement = Some 12, homeButton = Some 10, clicks = []\<rparr>"

definition example_no_home :: state where
  "example_no_home = example_state\<lparr>homeButton := None\<rparr>"

text \<open>
  A Firefox OS API object whose settings provider answers every request with \<^verbatim>\<open>onerror\<close>,
  whose video storage yields three files and then the end, whose music storage fails after
  one file, and with two installed apps, the second of which fails to launch; and a storage
  whose \<^verbatim>\<open>enumerate\<close> throws. The environment has no \<^verbatim>\<open>window.panasonic\<close>, but
  \<^verbatim>\<open>navigator.mozApps\<close> and this API object.
\<close>

definition failing_settings :: settings_provider where
  "failing_settings = \<lparr>lock_get = (\<lambda>key. Fails (Error ''denied'')),
                        lock_set = (\<lambda>key v. Fails (Error ''denied''))\<rparr>"

definition throwing_settings :: settings_provider where
  "throwing_settings = \<lparr>lock_get = (\<lambda>key. Throws (Error ''no lock'')),
                         lock_set = (\<lambda>key v. Throws (Error ''no lock''))\<rparr>"

definition example_apps :: "app list" where
  "example_apps = [\<lparr>origin = ''app://music'', launch = Succeeds ()\<rparr>,
                   \<lparr>origin = ''app://video'', launch = Fails (Error ''launch failed'')\<rparr>]"

definition example_videos :: "string \<Rightarrow> enumeration" where
  "example_videos path =
     Cursor [OnSuccess (JObject ''a''), OnSuccess (JObject ''b''), OnSuccess (JObject ''c''),
             OnSuccess JNull]"

definition example_music :: "string \<Rightarrow> enumeration" where
  "example_music path =
     Cursor [OnSuccess (JObject ''a''), OnError (Error ''unreadable''), OnSuccess (JObject ''b''),
             OnSuccess JNull]"

definition example_throwing :: "string \<Rightarrow> enumeration" where
  "example_throwing path = EnumThrows (Error ''no storage'')"

definition example_api :: firefox_api where
  "example_api =
     \<lparr>apps = True, getInstalled = Succeeds example_apps, settings = Some failing_settings,
      videoStorage = Some example_videos,
      musicStorage = Some example_music,
      pictureStorage = None\<rparr>"

definition example_env :: environment where
  "example_env = \<lparr>panasonic_system = None, mozApps = True, firefoxOSAPI = Some example_api\<rparr>"

text \<open>The example page after a content region with two focusable elements has been entered.\<close>

definition example_scope :: content_scope where
  "example_scope = \<lparr>focusableElements = [20, 21], contentFocus = 0\<rparr>"

definition example_scoped :: state where
  "example_scoped = example_state\<lparr>activeElement := Some 20\<rparr>"

section \<open>Properties of the navigation handler\<close>

subsection \<open>Basic facts about \<open>setFocus\<close>\<close>

lemma length_setFocus: "length (navItems (setFocus index s)) = length (navItems s)"
  by (simp add: setFocus_def Let_def)

lemma currentFocus_setFocus:
  "currentFocus (setFocus index s) =
     (if 0 \<le> index \<and> index < int (length (navItems s)) then index else currentFocus s)"
  by (simp add: setFocus_def Let_def)

lemma length_navigateRight: "length (navItems (navigateRight s)) = length (navItems s)"
  by (simp add: navigateRight_def playNavigationSound_def length_setFocus)

lemma wrap_right: "0 \<le> (i::int) \<Longrightarrow> i < n \<Longrightarrow> (if i < n - 1 then i + 1 else 0) = (i + 1) mod n"
proof (cases "i < n - 1")
  case True
  assume "0 \<le> i" "i < n"
  with True show ?thesis by simp
next
  case False
  assume "0 \<le> i" "i < n"
  with False have "i + 1 = n" by simp
  with False show ?thesis by simp
qed

lemma wrap_left: "0 \<le> (i::int) \<Longrightarrow> i < n \<Longrightarrow> (if i > 0 then i - 1 else n - 1) = (i - 1 + n) mod n"
proof (cases "i > 0")
  case True
  assume "0 \<le> i" "i < n"
  with True have "0 \<le> i - 1" "i - 1 < n" by simp_all
  then have "(i - 1 + n) mod n = i - 1" by simp
  with True show ?thesis by simp
next
  case False
  assume "0 \<le> i" "i < n"
  with False have "i = 0" "0 < n" by simp_all
  then have "(i - 1 + n) mod n = n - 1" by (simp add: zmod_minus1)
  with False show ?thesis by simp
qed

lemma currentFocus_navigateRight:
  assumes "0 \<le> currentFocus s" and "currentFocus s < int (length (navItems s))"
  shows "currentFocus (navigateRight s) = (currentFocus s + 1) mod int (length (navItems s))"
proof -
  define n where "n = int (length (navItems s))"
  from assms have r: "0 \<le> currentFocus s" "currentFocus s < n" by (simp_all add: n_def)
  from assms have ne: "navItems s \<noteq> []" by auto
  have "currentFocus (navigateRight s) = (if currentFocus s < n - 1 then currentFocus s + 1 else 0)"
    using assms ne by (auto simp: navigateRight_def playNavigationSound_def currentFocus_setFocus n_def)
  also have "\<dots> = (currentFocus s + 1) mod n"
    by (rule wrap_right [OF r])
  finally show ?thesis by (simp add: n_def)
qed

lemma currentFocus_navigateLeft:
  assumes "0 \<le> currentFocus s" and "currentFocus s < int (length (navItems s))"
  shows "currentFocus (navigateLeft s) =
           (currentFocus s - 1 + int (length (navItems s))) mod int (length (navItems s))"
proof -
  define n where "n = int (length (navItems s))"
  from assms have r: "0 \<le> currentFocus s" "currentFocus s < n" by (simp_all add: n_def)
  from assms have ne: "navItems s \<noteq> []" by auto
  have "currentFocus (navigateLeft s) = (if currentFocus s > 0 then currentFocus s - 1 else n - 1)"
    using assms ne by (auto simp: navigateLeft_def playNavigationSound_def currentFocus_setFocus n_def)
  also have "\<dots> = (currentFocus s - 1 + n) mod n"
    by (rule wrap_left [OF r])
  finally show ?thesis by (simp add: n_def)
qed

lemma navigateRight_funpow:
  assumes "0 \<le> currentFocus s" and "currentFocus s < int (length (navItems s))"
  shows "length (navItems ((navigateRight ^^ k) s)) = length (navItems s) \<and>
         currentFocus ((navigateRight ^^ k) s) = (currentFocus s + int k) mod int (length (navItems s))"
proof (induction k)
  case 0
  from assms show ?case by simp
next
  case (Suc k)
  define t where "t = (navigateRight ^^ k) s"
  define n where "n = int (length (navItems s))"
  from assms have npos: "0 < n" unfolding n_def by linarith
  from Suc have len: "length (navItems t) = length (navItems s)"
    and cur: "currentFocus t = (currentFocus s + int k) mod n" by (simp_all add: t_def n_def)
  from npos have "0 \<le> (currentFocus s + int k) mod n" "(currentFocus s + int k) mod n < n"
    by simp_all
  with cur len have range: "0 \<le> currentFocus t" "currentFocus t < int (length (navItems t))"
    by (simp_all add: n_def)
  have "currentFocus (navigateRight t) = (currentFocus t + 1) mod int (length (navItems t))"
    by (rule currentFocus_navigateRight [OF range])
  also have "\<dots> = ((currentFocus s + int k) mod n + 1) mod n"
    by (simp add: len cur n_def)
  also have "\<dots> = (currentFocus s + int k + 1) mod n"
    by (simp add: mod_add_left_eq)
  finally have "currentFocus (navigateRight t) = (currentFocus s + int (Suc k)) mod n"
    by (simp add: ac_simps)
  with len show ?case
    by (simp add: length_navigateRight t_def n_def)
qed

subsection \<open>The focus marker and the invariant\<close>

lemma filter_upt_eq: "filter (\<lambda>k. k = i) [0..<n] = (if i < n then [i] else [])"
  by (induction n) auto

lemma marked_setFocus:
  "marked (setFocus index s) =
     (if 0 \<le> index \<and> index < int (length (navItems s)) then [nat index] else [])"
proof (cases "0 \<le> index \<and> index < int (length (navItems s))")
  case True
  define items where "items = map (\<lambda>item. item\<lparr>active := False\<rparr>) (navItems s)"
  define n where "n = length (navItems s)"
  from True have i: "nat index < n" unfolding n_def by linarith
  have len: "length items = n" by (simp add: items_def n_def)
  have nav: "navItems (setFocus index s) = items[nat index := (items ! nat index)\<lparr>active := True\<rparr>]"
    using True by (simp add: setFocus_def Let_def items_def)
  have "marked (setFocus index s) =
          filter (\<lambda>k. active (items[nat index := (items ! nat index)\<lparr>active := True\<rparr>] ! k)) [0..<n]"
    by (simp add: marked_def nav len)
  also have "\<dots> = filter (\<lambda>k. k = nat index) [0..<n]"
  proof (rule filter_cong [OF refl])
    fix k assume "k \<in> set [0..<n]"
    then have k: "k < n" by simp
    show "active (items[nat index := (items ! nat index)\<lparr>active := True\<rparr>] ! k) = (k = nat index)"
    proof (cases "k = nat index")
      case True
      with i len show ?thesis by simp
    next
      case False
      with k len have "items[nat index := (items ! nat index)\<lparr>active := True\<rparr>] ! k = items ! k"
        by simp
      also have "active (items ! k) = False"
        using k by (simp add: items_def n_def)
      finally show ?thesis using False by simp
    qed
  qed
  also have "\<dots> = [nat index]"
    using i by (simp add: filter_upt_eq)
  finally show ?thesis using True by simp
next
  case False
  then have nav: "navItems (setFocus index s) = map (\<lambda>item. item\<lparr>active := False\<rparr>) (navItems s)"
    by (auto simp: setFocus_def Let_def)
  have "filter (\<lambda>k. active (map (\<lambda>item. item\<lparr>active := False\<rparr>) (navItems s) ! k)) [0..<length (navItems s)] = []"
    by (simp add: filter_empty_conv)
  with False show ?thesis by (simp add: marked_def nav)
qed

lemma all_inactive_setFocus:
  "\<not> (0 \<le> index \<and> index < int (length (navItems s))) \<Longrightarrow>
   list_all (\<lambda>item. \<not> active item) (navItems (setFocus index s))"
  by (auto simp: setFocus_def Let_def list_all_iff)

lemma focus_inv_setFocus:
  "0 \<le> index \<Longrightarrow> index < int (length (navItems s)) \<Longrightarrow> focus_inv (setFocus index s)"
  by (simp add: focus_inv_def marked_setFocus currentFocus_setFocus length_setFocus)

lemma focus_inv_empty: "navItems s = [] \<Longrightarrow> focus_inv s"
  by (simp add: focus_inv_def)

lemma navItems_setFocus_empty: "navItems s = [] \<Longrightarrow> navItems (setFocus index s) = []"
  using length_setFocus [of index s] by simp

lemma focus_inv_cong:
  "navItems t = navItems s \<Longrightarrow> currentFocus t = currentFocus s \<Longrightarrow> focus_inv t = focus_inv s"
  by (simp add: focus_inv_def marked_def)

lemma focus_inv_navigateLeft: "focus_inv s \<Longrightarrow> focus_inv (navigateLeft s)"
proof (cases "navItems s = []")
  case True
  then show ?thesis
    by (simp add: navigateLeft_def playNavigationSound_def focus_inv_empty navItems_setFocus_empty)
next
  case False
  assume "focus_inv s"
  with False have r: "0 \<le> currentFocus s" "currentFocus s < int (length (navItems s))"
    by (simp_all add: focus_inv_def)
  from False have "0 < length (navItems s)" by simp
  with r show ?thesis
    by (auto simp: navigateLeft_def playNavigationSound_def intro!: focus_inv_setFocus)
qed

lemma focus_inv_navigateRight: "focus_inv s \<Longrightarrow> focus_inv (navigateRight s)"
proof (cases "navItems s = []")
  case True
  then show ?thesis
    by (simp add: navigateRight_def playNavigationSound_def focus_inv_empty navItems_setFocus_empty)
next
  case False
  assume "focus_inv s"
  with False have r: "0 \<le> currentFocus s" "currentFocus s < int (length (navItems s))"
    by (simp_all add: focus_inv_def)
  from False have "0 < length (navItems s)" by simp
  with r show ?thesis
    by (auto simp: navigateRight_def playNavigationSound_def intro!: focus_inv_setFocus)
qed

lemma focus_inv_activateCurrentItem: "focus_inv s \<Longrightarrow> focus_inv (activateCurrentItem s)"
  by (auto simp: activateCurrentItem_def click_def playSelectionSound_def
      split: option.splits elim: focus_inv_cong [THEN iffD2, rotated -1])

lemma focus_inv_handleBackNavigation: "focus_inv s \<Longrightarrow> focus_inv (handleBackNavigation s)"
proof (cases "homeButton s")
  case None
  assume "focus_inv s"
  with None show ?thesis by (simp add: handleBackNavigation_def)
next
  case (Some h)
  show ?thesis
  proof (cases "navItems s = []")
    case True
    then have "navItems (setFocus 0 (click h s)) = []"
      by (simp add: navItems_setFocus_empty click_def)
    with Some show ?thesis by (simp add: handleBackNavigation_def focus_inv_empty)
  next
    case False
    then have "0 < int (length (navItems (click h s)))" by (simp add: click_def)
    then have "focus_inv (setFocus 0 (click h s))"
      by (intro focus_inv_setFocus) simp_all
    with Some show ?thesis by (simp add: handleBackNavigation_def)
  qed
qed

lemma focus_inv_setInitialFocus: "focus_inv (setInitialFocus s)"
proof (cases "navItems s = []")
  case True
  then show ?thesis by (simp add: setInitialFocus_def focus_inv_empty)
next
  case False
  then have "focus_inv (setFocus 0 s)"
    by (intro focus_inv_setFocus) simp_all
  with False show ?thesis by (simp add: setInitialFocus_def)
qed

lemma focus_inv_init: "focus_inv (init items s)"
  by (simp add: init_def focus_inv_setInitialFocus)

lemma focus_inv_reset: "focus_inv (reset items s)"
proof -
  have "focus_inv ((setInitialFocus (updateNavItems items s))\<lparr>isNavigating := False\<rparr>) =
        focus_inv (setInitialFocus (updateNavItems items s))"
    by (rule focus_inv_cong) simp_all
  then show ?thesis by (simp add: reset_def focus_inv_setInitialFocus)
qed

lemma focus_inv_isNavigating: "focus_inv (s\<lparr>isNavigating := b\<rparr>) = focus_inv s"
  by (rule focus_inv_cong) simp_all

lemma focus_inv_handleKeyPress: "focus_inv s \<Longrightarrow> focus_inv (snd (handleKeyPress keyCode s))"
  by (simp add: handleKeyPress_def Let_def navigateUp_def navigateDown_def
      focus_inv_navigateLeft focus_inv_navigateRight focus_inv_activateCurrentItem
      focus_inv_handleBackNavigation focus_inv_isNavigating)

lemma focus_inv_handleTVKeys: "focus_inv s \<Longrightarrow> focus_inv (snd (handleTVKeys keyCode s))"
  by (simp add: handleTVKeys_def focus_inv_handleBackNavigation)

lemma focus_inv_keydown: "focus_inv s \<Longrightarrow> focus_inv (snd (keydown isTV keyCode s))"
  by (simp add: keydown_def Let_def focus_inv_handleKeyPress focus_inv_handleTVKeys)

lemma focus_inv_activeElement: "focus_inv (s\<lparr>activeElement := a\<rparr>) = focus_inv s"
  by (rule focus_inv_cong) simp_all

lemma focus_inv_enableContentNavigation:
  "focus_inv s \<Longrightarrow> focus_inv (snd (enableContentNavigation contentElement s))"
  by (simp add: enableContentNavigation_def focus_inv_activeElement split: option.splits)

lemma focus_inv_contentKeydown:
  assumes "focus_inv s"
  shows "focus_inv (snd (snd (contentKeydown keyCode (c, s))))"
proof (cases "navItems s = []")
  case True
  then have "focus_inv (setFocus (currentFocus s) s)"
    by (simp add: focus_inv_empty navItems_setFocus_empty)
  with assms show ?thesis
    by (simp add: contentKeydown_def navigateContent_def Let_def focus_inv_activeElement)
next
  case False
  with assms have "focus_inv (setFocus (currentFocus s) s)"
    by (intro focus_inv_setFocus) (simp_all add: focus_inv_def)
  with assms show ?thesis
    by (simp add: contentKeydown_def navigateContent_def Let_def focus_inv_activeElement)
qed

lemma focus_inv_apply_op:
  assumes "focus_inv s"
  shows "focus_inv (fst (apply_op op (s, sc)))"
proof (cases op)
  case (EnterContentScope ce)
  obtain r s' where e: "enableContentNavigation ce s = (r, s')" by (cases "enableContentNavigation ce s")
  with focus_inv_enableContentNavigation [OF assms, of ce] have "focus_inv s'" by simp
  with EnterContentScope e show ?thesis by (cases r) simp_all
next
  case (ContentKeyDown k)
  with focus_inv_contentKeydown [OF assms] show ?thesis by (cases sc) (simp_all add: assms)
qed (simp_all add: assms focus_inv_init focus_inv_reset focus_inv_navigateLeft focus_inv_navigateRight
      navigateUp_def navigateDown_def focus_inv_activateCurrentItem focus_inv_handleBackNavigation
      focus_inv_keydown)

lemma length_marked: "length (marked s) = length (filter active (navItems s))"
proof -
  have "filter active (navItems s) = filter active (map ((!) (navItems s)) [0..<length (navItems s)])"
    by (simp add: map_nth)
  also have "\<dots> = map ((!) (navItems s)) (filter (active \<circ> (!) (navItems s)) [0..<length (navItems s)])"
    by (simp add: filter_map)
  finally show ?thesis by (simp add: marked_def o_def)
qed

lemma marked_nth: "marked s = [k] \<Longrightarrow> active (navItems s ! k)"
proof -
  assume "marked s = [k]"
  then have "k \<in> set (filter (\<lambda>k. active (navItems s ! k)) [0..<length (navItems s)])"
    by (simp add: marked_def)
  then show ?thesis by simp
qed

lemma focus_inv_fold:
  "focus_inv (fst st) \<Longrightarrow> focus_inv (fst (fold apply_op ops st))"
proof (induction ops arbitrary: st)
  case Nil
  then show ?case by simp
next
  case (Cons op ops)
  obtain s sc where st: "st = (s, sc)" by (cases st)
  with Cons.prems have "focus_inv (fst (apply_op op st))"
    by (simp add: focus_inv_apply_op)
  then have "focus_inv (fst (fold apply_op ops (apply_op op st)))"
    by (rule Cons.IH)
  then show ?case by simp
qed

lemma focus_inv_constructor: "focus_inv (constructor items a h)"
  by (simp add: constructor_def focus_inv_init)

text \<open>
  C9. The invariant: with a non-empty item list, exactly one item carries the \<^verbatim>\<open>active\<close>
  class, it is the item at \<^verbatim>\<open>currentFocus\<close>, and \<open>0 \<le> currentFocus < length\<close>. It holds
  after construction and any sequence of operations; every operation preserves it from any
  state that satisfies it; and \<^verbatim>\<open>setFocus\<close> with an index inside the array clears every
  marker before it sets the one at the index, so that the marked positions are exactly that
  index.
\<close>

theorem focus_invariant:
  "focus_inv (fst (fold apply_op ops (constructor items a h, sc))) \<and>
   (focus_inv s \<longrightarrow> focus_inv (fst (apply_op op (s, sc')))) \<and>
   (focus_inv s \<longrightarrow>
      navItems s = [] \<or>
      (length (filter active (navItems s)) = 1 \<and> active (navItems s ! nat (currentFocus s)) \<and>
       0 \<le> currentFocus s \<and> currentFocus s < int (length (navItems s)))) \<and>
   (0 \<le> index \<and> index < int (length (navItems s)) \<longrightarrow>
      marked (setFocus index s) = [nat index] \<and> currentFocus (setFocus index s) = index)"
proof (intro conjI impI)
  show "focus_inv (fst (fold apply_op ops (constructor items a h, sc)))"
    by (rule focus_inv_fold) (simp add: focus_inv_constructor)
next
  assume "focus_inv s"
  then show "focus_inv (fst (apply_op op (s, sc')))" by (rule focus_inv_apply_op)
next
  assume inv: "focus_inv s"
  show "navItems s = [] \<or>
      (length (filter active (navItems s)) = 1 \<and> active (navItems s ! nat (currentFocus s)) \<and>
       0 \<le> currentFocus s \<and> currentFocus s < int (length (navItems s)))"
  proof (cases "navItems s = []")
    case True
    then show ?thesis by simp
  next
    case False
    with inv have m: "marked s = [nat (currentFocus s)]"
      and r: "0 \<le> currentFocus s" "currentFocus s < int (length (navItems s))"
      by (simp_all add: focus_inv_def)
    from m have "length (marked s) = 1" by simp
    then have "length (filter active (navItems s)) = 1" by (simp add: length_marked)
    with marked_nth [OF m] r show ?thesis by simp
  qed
next
  assume "0 \<le> index \<and> index < int (length (navItems s))"
  then show "marked (setFocus index s) = [nat index]" by (simp add: marked_setFocus)
next
  assume "0 \<le> index \<and> index < int (length (navItems s))"
  then show "currentFocus (setFocus index s) = index" by (simp add: currentFocus_setFocus)
qed

lemma focus_inv_example: "focus_inv example_state"
  by (simp add: focus_inv_def marked_def example_state_def upt_rec)

theorem focus_invariant_witness:
  "focus_inv (fst (fold apply_op [MoveRight, KeyDown False 27, Reset []] (constructor (navItems example_state) None (Some 10), None))) \<and>
   focus_inv example_state \<and> focus_inv (fst (apply_op MoveLeft (example_state, None))) \<and>
   length (filter active (navItems example_state)) = 1 \<and>
   marked (setFocus 1 example_state) = [1] \<and> currentFocus (setFocus 1 example_state) = 1"
proof -
  have n: "length (navItems example_state) = 3" and ne: "navItems example_state \<noteq> []"
    by (simp_all add: example_state_def)
  from focus_invariant [of "[MoveRight, KeyDown False 27, Reset []]" "navItems example_state" None "Some 10" None
      example_state MoveLeft None 1]
  show ?thesis
    using focus_inv_example by (simp add: n ne)
qed

text \<open>
  C10. For an index outside the array (negative, or not below the length, which covers every
  index when there are no items), \<^verbatim>\<open>setFocus\<close> keeps \<^verbatim>\<open>currentFocus\<close>, and has removed the
  \<^verbatim>\<open>active\<close> class from every item: no item is marked afterwards. No statement of
  \<^verbatim>\<open>setFocus\<close> can throw, so the model is a total function with no error result.
\<close>

theorem setFocus_out_of_range:
  assumes "index < 0 \<or> int (length (navItems s)) \<le> index"
  shows "currentFocus (setFocus index s) = currentFocus s \<and>
         list_all (\<lambda>item. \<not> active item) (navItems (setFocus index s)) \<and>
         marked (setFocus index s) = [] \<and>
         length (navItems (setFocus index s)) = length (navItems s)"
proof -
  from assms have out: "\<not> (0 \<le> index \<and> index < int (length (navItems s)))" by auto
  have "currentFocus (setFocus index s) = currentFocus s"
    unfolding currentFocus_setFocus using out by (rule if_not_P)
  moreover have "list_all (\<lambda>item. \<not> active item) (navItems (setFocus index s))"
    using out by (rule all_inactive_setFocus)
  moreover have "marked (setFocus index s) = []"
    unfolding marked_setFocus using out by (rule if_not_P)
  ultimately show ?thesis
    by (simp add: length_setFocus)
qed

theorem setFocus_out_of_range_witness:
  "currentFocus (setFocus 3 example_state) = 2 \<and>
   list_all (\<lambda>item. \<not> active item) (navItems (setFocus 3 example_state)) \<and>
   marked (setFocus 3 example_state) = [] \<and>
   currentFocus (setFocus (- 1) example_state) = 2 \<and>
   marked (setFocus (- 1) example_state) = []"
proof -
  have cf: "currentFocus example_state = 2" and n: "length (navItems example_state) = 3"
    by (simp_all add: example_state_def)
  have h1: "(3::int) < 0 \<or> int (length (navItems example_state)) \<le> 3"
    and h2: "(- 1::int) < 0 \<or> int (length (navItems example_state)) \<le> - 1"
    by (simp_all add: n)
  from setFocus_out_of_range [OF h1] setFocus_out_of_range [OF h2] show ?thesis
    by (simp add: cf)
qed

subsection \<open>Wrap-around\<close>

text \<open>
  C1. With at least two items and the index inside the array, \<^verbatim>\<open>navigateRight\<close> stores
  \<open>(i + 1) mod n\<close> and \<^verbatim>\<open>navigateLeft\<close> stores \<open>(i - 1 + n) mod n\<close>; so from index 0
  \<^verbatim>\<open>navigateLeft\<close> reaches \<open>n - 1\<close>, and \<open>n\<close> calls of \<^verbatim>\<open>navigateRight\<close> come back to
  the index they started from.
\<close>

theorem navigate_wraps:
  assumes "2 \<le> length (navItems s)"
    and "0 \<le> currentFocus s" and "currentFocus s < int (length (navItems s))"
  shows "currentFocus (navigateRight s) = (currentFocus s + 1) mod int (length (navItems s)) \<and>
         currentFocus (navigateLeft s) =
           (currentFocus s - 1 + int (length (navItems s))) mod int (length (navItems s)) \<and>
         (if currentFocus s = 0 then currentFocus (navigateLeft s) = int (length (navItems s)) - 1
          else currentFocus (navigateLeft s) = currentFocus s - 1) \<and>
         currentFocus ((navigateRight ^^ length (navItems s)) s) = currentFocus s"
proof -
  define n where "n = int (length (navItems s))"
  have r: "0 \<le> currentFocus s" "currentFocus s < n"
    using assms by (simp_all add: n_def)
  have right: "currentFocus (navigateRight s) = (currentFocus s + 1) mod n"
    unfolding n_def by (rule currentFocus_navigateRight [OF assms(2,3)])
  have left: "currentFocus (navigateLeft s) = (currentFocus s - 1 + n) mod n"
    unfolding n_def by (rule currentFocus_navigateLeft [OF assms(2,3)])
  have left': "currentFocus (navigateLeft s) = (if currentFocus s > 0 then currentFocus s - 1 else n - 1)"
    using left wrap_left [OF r] by simp
  have "currentFocus ((navigateRight ^^ length (navItems s)) s) = (currentFocus s + n) mod n"
    using navigateRight_funpow [OF assms(2,3), of "length (navItems s)"] by (simp add: n_def)
  also have "\<dots> = currentFocus s"
    using r by simp
  finally have round: "currentFocus ((navigateRight ^^ length (navItems s)) s) = currentFocus s" .
  from r left' have zero: "(if currentFocus s = 0 then currentFocus (navigateLeft s) = n - 1
          else currentFocus (navigateLeft s) = currentFocus s - 1)"
    by auto
  from right left zero round show ?thesis
    unfolding n_def by blast
qed

theorem navigate_wraps_witness:
  "currentFocus (navigateRight example_state) = 0 \<and>
   currentFocus (navigateLeft example_state) = 1 \<and>
   currentFocus ((navigateRight ^^ 3) example_state) = 2"
proof -
  have cf: "currentFocus example_state = 2" and n: "length (navItems example_state) = 3"
    by (simp_all add: example_state_def)
  have h1: "2 \<le> length (navItems example_state)"
    and h2: "0 \<le> currentFocus example_state"
    and h3: "currentFocus example_state < int (length (navItems example_state))"
    by (simp_all add: cf n)
  from navigate_wraps [OF h1 h2 h3] show ?thesis
    by (simp add: cf n)
qed

subsection \<open>Back navigation\<close>

text \<open>
  C3 (as amended). From any state and any content region: without a \<^verbatim>\<open>home-btn\<close> element
  \<^verbatim>\<open>handleBackNavigation\<close> changes nothing; with one, it clicks it and calls
  \<^verbatim>\<open>setFocus(0)\<close>, so that \<^verbatim>\<open>currentFocus\<close> becomes 0 when there are items and stays as it
  was when there are none. The content region is not touched.
\<close>

theorem back_navigation:
  "(case homeButton s of
      None \<Rightarrow> apply_op BackNavigate (s, sc) = (s, sc)
    | Some h \<Rightarrow>
        clicks (fst (apply_op BackNavigate (s, sc))) = clicks s @ [h] \<and>
        currentFocus (fst (apply_op BackNavigate (s, sc))) = (if navItems s = [] then currentFocus s else 0) \<and>
        snd (apply_op BackNavigate (s, sc)) = sc)"
  by (auto simp: handleBackNavigation_def currentFocus_setFocus click_def setFocus_def Let_def
      split: option.splits)

theorem back_navigation_witness:
  "clicks (fst (apply_op BackNavigate (example_state, None))) = [10] \<and>
   currentFocus (fst (apply_op BackNavigate (example_state, None))) = 0"
proof -
  have "homeButton example_state = Some 10" "clicks example_state = []" "navItems example_state \<noteq> []"
    by (simp_all add: example_state_def)
  with back_navigation [of example_state None] show ?thesis
    by simp
qed

text \<open>
  The claim as first stated fails on a page without the home button: from index 2 of three
  items nothing is clicked and the index stays 2.
\<close>

theorem back_navigation_counterexample:
  "currentFocus (handleBackNavigation example_no_home) \<noteq> 0 \<and>
   clicks (handleBackNavigation example_no_home) = []"
  by (simp add: handleBackNavigation_def example_no_home_def example_state_def)

subsection \<open>Suppressing the default action of keys\<close>

text \<open>
  C4 (as amended). \<^verbatim>\<open>handleKeyPress\<close> calls \<^verbatim>\<open>preventDefault\<close> exactly for the codes of
  \<^verbatim>\<open>navigationKeys\<close> (37, 38, 39, 40, 13, 32); the back code 27 is routed to
  \<^verbatim>\<open>handleBackNavigation\<close> without it. \<^verbatim>\<open>handleTVKeys\<close> calls it exactly for 403, 404, 405,
  406, 461, 457 and 27. A key event on the document has its default suppressed exactly when
  one of the listeners installed does so; every other code is left alone.
\<close>

theorem key_default_suppression:
  "fst (handleKeyPress k s) = (k \<in> {37, 38, 39, 40, 13, 32}) \<and>
   handleKeyPress 27 s = (False, handleBackNavigation s) \<and>
   fst (handleTVKeys k s) = (k \<in> {403, 404, 405, 406, 461, 457, 27}) \<and>
   fst (keydown isTV k s) =
     (k \<in> {37, 38, 39, 40, 13, 32} \<or> (isTV \<and> k \<in> {403, 404, 405, 406, 461, 457, 27}))"
  by (auto simp: handleKeyPress_def handleTVKeys_def keydown_def navigationKeys_def Let_def)

theorem key_default_suppression_witness:
  "fst (handleKeyPress 37 example_state) \<and> \<not> fst (handleKeyPress 27 example_state) \<and>
   fst (handleTVKeys 27 example_state) \<and> \<not> fst (keydown True 65 example_state)"
  using key_default_suppression [of 37 example_state] key_default_suppression [of 27 example_state]
    key_default_suppression [of 65 example_state True]
  by simp

text \<open>
  The claim as first stated fails for the back code 27 where only the handler listens (no TV
  environment): the key is routed to back navigation (the home button is clicked, the index
  becomes 0), and the default action is not suppressed.
\<close>

theorem key_default_suppression_counterexample:
  "\<not> fst (handleKeyPress 27 example_state) \<and>
   clicks (snd (handleKeyPress 27 example_state)) = [10] \<and>
   currentFocus (snd (handleKeyPress 27 example_state)) = 0 \<and>
   \<not> fst (keydown False 27 example_state)"
  by (simp add: handleKeyPress_def keydown_def navigationKeys_def Let_def handleBackNavigation_def
      click_def currentFocus_setFocus example_state_def setFocus_def)

subsection \<open>Content navigation and the index\<close>

text \<open>
  Taken alone, entering the region and the content listener's answer to Left (37) or Right
  (39), the call \<^verbatim>\<open>setFocus(this.currentFocus)\<close>, leave \<^verbatim>\<open>currentFocus\<close> as it was.
\<close>

lemma content_scope_keeps_index:
  assumes "enableContentNavigation contentElement s = (Some c, s')"
    and "keyCode = 37 \<or> keyCode = 39"
  shows "currentFocus s' = currentFocus s \<and>
         currentFocus (snd (snd (contentKeydown keyCode (c, s')))) = currentFocus s \<and>
         fst (contentKeydown keyCode (c, s'))"
proof -
  from assms(1) have "currentFocus s' = currentFocus s"
    by (auto simp: enableContentNavigation_def split: option.splits if_splits)
  moreover from assms(2) have "snd (snd (contentKeydown keyCode (c, s'))) = setFocus (currentFocus s') s'"
    and "fst (contentKeydown keyCode (c, s'))"
    by (auto simp: contentKeydown_def)
  ultimately show ?thesis
    by (simp add: currentFocus_setFocus)
qed

text \<open>
  The key event does not end there: it reaches the document's \<^verbatim>\<open>handleKeyPress\<close>, which
  navigates left or right from the index the content listener has just restored.
\<close>

lemma contentKeyEvent_left:
  assumes "0 \<le> currentFocus s" and "currentFocus s < int (length (navItems s))"
  shows "currentFocus (snd (snd (contentKeyEvent isTV 37 (c, s)))) =
           (currentFocus s - 1 + int (length (navItems s))) mod int (length (navItems s))"
proof -
  define t where "t = (setFocus (currentFocus s) s)\<lparr>isNavigating := True\<rparr>"
  have cf: "currentFocus t = currentFocus s"
    using assms by (simp add: t_def currentFocus_setFocus)
  have len: "length (navItems t) = length (navItems s)"
    by (simp add: t_def length_setFocus)
  have "snd (snd (contentKeyEvent isTV 37 (c, s))) = navigateLeft t"
    by (simp add: contentKeyEvent_def keydown_def handleKeyPress_def handleTVKeys_def
        contentKeydown_def navigationKeys_def Let_def t_def)
  moreover have "currentFocus (navigateLeft t) =
      (currentFocus t - 1 + int (length (navItems t))) mod int (length (navItems t))"
    by (rule currentFocus_navigateLeft) (simp_all add: cf len assms)
  ultimately show ?thesis by (simp add: cf len)
qed

lemma contentKeyEvent_right:
  assumes "0 \<le> currentFocus s" and "currentFocus s < int (length (navItems s))"
  shows "currentFocus (snd (snd (contentKeyEvent isTV 39 (c, s)))) =
           (currentFocus s + 1) mod int (length (navItems s))"
proof -
  define t where "t = (setFocus (currentFocus s) s)\<lparr>isNavigating := True\<rparr>"
  have cf: "currentFocus t = currentFocus s"
    using assms by (simp add: t_def currentFocus_setFocus)
  have len: "length (navItems t) = length (navItems s)"
    by (simp add: t_def length_setFocus)
  have "snd (snd (contentKeyEvent isTV 39 (c, s))) = navigateRight t"
    by (simp add: contentKeyEvent_def keydown_def handleKeyPress_def handleTVKeys_def
        contentKeydown_def navigationKeys_def Let_def t_def)
  moreover have "currentFocus (navigateRight t) =
      (currentFocus t + 1) mod int (length (navItems t))"
    by (rule currentFocus_navigateRight) (simp_all add: cf len assms)
  ultimately show ?thesis by (simp add: cf len)
qed

text \<open>
  C8. On the example page (three items, index 2) a content region with two focusable
  elements is entered, and the index is still 2. The region is left by a Left or Right key
  pressed in it: the content listener restores index 2, and the same event then makes
  \<^verbatim>\<open>handleKeyPress\<close> navigate, so that the index ends at 1 after Left and at 0 after Right,
  with or without the TV listener. The index held before entry is not restored.
\<close>

theorem content_scope_exit_moves_index:
  "enableContentNavigation (Some [20, 21]) example_state = (Some example_scope, example_scoped) \<and>
   currentFocus example_state = 2 \<and>
   currentFocus example_scoped = 2 \<and>
   currentFocus (snd (snd (contentKeydown 37 (example_scope, example_scoped)))) = 2 \<and>
   currentFocus (snd (snd (contentKeyEvent False 37 (example_scope, example_scoped)))) = 1 \<and>
   currentFocus (snd (snd (contentKeyEvent False 39 (example_scope, example_scoped)))) = 0 \<and>
   currentFocus (snd (snd (contentKeyEvent True 37 (example_scope, example_scoped)))) = 1 \<and>
   currentFocus (snd (snd (contentKeyEvent True 39 (example_scope, example_scoped)))) = 0"
proof -
  have e: "enableContentNavigation (Some [20, 21]) example_state = (Some example_scope, example_scoped)"
    by (simp add: enableContentNavigation_def example_scope_def example_scoped_def)
  have cf: "currentFocus example_scoped = 2" and cf0: "currentFocus example_state = 2"
    and n: "length (navItems example_scoped) = 3"
    by (simp_all add: example_scoped_def example_state_def)
  have r: "0 \<le> currentFocus example_scoped" "currentFocus example_scoped < int (length (navItems example_scoped))"
    by (simp_all add: cf n)
  have k: "currentFocus (snd (snd (contentKeydown 37 (example_scope, example_scoped)))) = 2"
    using r by (simp add: contentKeydown_def currentFocus_setFocus cf)
  have l: "currentFocus (snd (snd (contentKeyEvent isTV 37 (example_scope, example_scoped)))) = 1" for isTV
    using contentKeyEvent_left [OF r, of isTV example_scope] by (simp add: cf n)
  have rt: "currentFocus (snd (snd (contentKeyEvent isTV 39 (example_scope, example_scoped)))) = 0" for isTV
    using contentKeyEvent_right [OF r, of isTV example_scope] by (simp add: cf n)
  from e cf0 cf k l rt show ?thesis by simp
qed

section \<open>Properties of the Firefox OS API\<close>

lemma drain_items:
  "list_all truthy fs \<Longrightarrow> drain (map OnSuccess fs @ evs) acc = drain evs (acc @ fs)"
  by (induction fs arbitrary: acc) simp_all

lemma drain_collects:
  "list_all truthy fs \<Longrightarrow> \<not> truthy fin \<Longrightarrow>
   drain (map OnSuccess fs @ OnSuccess fin # rest) acc = Resolved (acc @ fs)"
  by (simp add: drain_items)

lemma drain_failed:
  "list_all truthy fs \<Longrightarrow> drain (map OnSuccess fs @ OnError e # rest) acc = Rejected e"
  by (simp add: drain_items)

text \<open>The \<^verbatim>\<open>switch\<close> of \<^verbatim>\<open>getStorageFiles\<close>, case by case.\<close>

lemma getStorageFiles_videos:
  "getStorageFiles api ''videos'' path =
     (case videoStorage api of
        None \<Rightarrow> Resolved []
      | Some storage \<Rightarrow> (case storage path of EnumThrows e \<Rightarrow> Resolved [] | Cursor evs \<Rightarrow> drain evs []))"
  by (simp add: getStorageFiles_def storageFor_def split: option.splits)

lemma getStorageFiles_music:
  "getStorageFiles api ''music'' path =
     (case musicStorage api of
        None \<Rightarrow> Resolved []
      | Some storage \<Rightarrow> (case storage path of EnumThrows e \<Rightarrow> Resolved [] | Cursor evs \<Rightarrow> drain evs []))"
  by (simp add: getStorageFiles_def storageFor_def split: option.splits)

lemma getStorageFiles_pictures:
  "getStorageFiles api ''pictures'' path =
     (case pictureStorage api of
        None \<Rightarrow> Resolved []
      | Some storage \<Rightarrow> (case storage path of EnumThrows e \<Rightarrow> Resolved [] | Cursor evs \<Rightarrow> drain evs []))"
  by (simp add: getStorageFiles_def storageFor_def split: option.splits)

lemma getStorageFiles_other:
  "storageType \<noteq> ''videos'' \<Longrightarrow> storageType \<noteq> ''music'' \<Longrightarrow> storageType \<noteq> ''pictures'' \<Longrightarrow>
   getStorageFiles api storageType path = Resolved []"
  by (simp add: getStorageFiles_def storageFor_def)

text \<open>
  C6. \<^verbatim>\<open>getStorageFiles\<close> resolves with the empty list for a storage type other than
  \<^verbatim>\<open>videos\<close>, \<^verbatim>\<open>music\<close>, \<^verbatim>\<open>pictures\<close>, and for each of these three when its storage
  (\<^verbatim>\<open>videoStorage\<close>, \<^verbatim>\<open>musicStorage\<close>, \<^verbatim>\<open>pictureStorage\<close>) is not available. When the
  storage is available and its cursor yields the files \<open>fs\<close> (truthy results, as every file
  object is) and then signals the end (a result that is not truthy, \<^verbatim>\<open>null\<close>), it resolves
  (once: a promise has one outcome) with exactly \<open>fs\<close>, in the order the cursor yielded them.
\<close>

theorem getStorageFiles_collects:
  "(storageType \<noteq> ''videos'' \<and> storageType \<noteq> ''music'' \<and> storageType \<noteq> ''pictures'' \<longrightarrow>
      getStorageFiles api storageType path = Resolved []) \<and>
   (videoStorage api = None \<longrightarrow> getStorageFiles api ''videos'' path = Resolved []) \<and>
   (musicStorage api = None \<longrightarrow> getStorageFiles api ''music'' path = Resolved []) \<and>
   (pictureStorage api = None \<longrightarrow> getStorageFiles api ''pictures'' path = Resolved []) \<and>
   (list_all truthy fs \<and> \<not> truthy fin \<and> storage path = Cursor (map OnSuccess fs @ OnSuccess fin # rest) \<longrightarrow>
      (videoStorage api = Some storage \<longrightarrow> getStorageFiles api ''videos'' path = Resolved fs) \<and>
      (musicStorage api = Some storage \<longrightarrow> getStorageFiles api ''music'' path = Resolved fs) \<and>
      (pictureStorage api = Some storage \<longrightarrow> getStorageFiles api ''pictures'' path = Resolved fs))"
  by (simp add: getStorageFiles_videos getStorageFiles_music getStorageFiles_pictures
      getStorageFiles_other drain_collects)

theorem getStorageFiles_collects_witness:
  "getStorageFiles example_api ''videos'' [] = Resolved [JObject ''a'', JObject ''b'', JObject ''c''] \<and>
   getStorageFiles (example_api\<lparr>musicStorage := Some example_videos\<rparr>) ''music'' [] =
     Resolved [JObject ''a'', JObject ''b'', JObject ''c''] \<and>
   getStorageFiles (example_api\<lparr>pictureStorage := Some example_videos\<rparr>) ''pictures'' [] =
     Resolved [JObject ''a'', JObject ''b'', JObject ''c''] \<and>
   getStorageFiles example_api ''pictures'' [] = Resolved [] \<and>
   getStorageFiles (example_api\<lparr>videoStorage := None\<rparr>) ''videos'' [] = Resolved [] \<and>
   getStorageFiles (example_api\<lparr>musicStorage := None\<rparr>) ''music'' [] = Resolved [] \<and>
   getStorageFiles example_api ''documents'' [] = Resolved []"
proof -
  let ?fs = "[JObject ''a'', JObject ''b'', JObject ''c'']"
  have t: "list_all truthy ?fs" "\<not> truthy JNull" by simp_all
  have c: "example_videos [] = Cursor (map OnSuccess ?fs @ OnSuccess JNull # [])"
    by (simp add: example_videos_def)
  have v: "videoStorage example_api = Some example_videos"
    and p: "pictureStorage example_api = None"
    by (simp_all add: example_api_def)
  have m': "musicStorage (example_api\<lparr>musicStorage := Some example_videos\<rparr>) = Some example_videos"
    and p': "pictureStorage (example_api\<lparr>pictureStorage := Some example_videos\<rparr>) = Some example_videos"
    and vn: "videoStorage (example_api\<lparr>videoStorage := None\<rparr>) = None"
    and mn: "musicStorage (example_api\<lparr>musicStorage := None\<rparr>) = None"
    by simp_all
  have d: "''documents'' \<noteq> ''videos''" "''documents'' \<noteq> ''music''" "''documents'' \<noteq> ''pictures''"
    by simp_all
  have "getStorageFiles example_api ''videos'' [] = Resolved ?fs"
    using getStorageFiles_collects [of _ example_api "[]" ?fs JNull example_videos "[]"] t c v by blast
  moreover have "getStorageFiles (example_api\<lparr>musicStorage := Some example_videos\<rparr>) ''music'' [] = Resolved ?fs"
    using getStorageFiles_collects [of _ "example_api\<lparr>musicStorage := Some example_videos\<rparr>" "[]" ?fs JNull
        example_videos "[]"] t c m' by blast
  moreover have "getStorageFiles (example_api\<lparr>pictureStorage := Some example_videos\<rparr>) ''pictures'' [] = Resolved ?fs"
    using getStorageFiles_collects [of _ "example_api\<lparr>pictureStorage := Some example_videos\<rparr>" "[]" ?fs JNull
        example_videos "[]"] t c p' by blast
  moreover have "getStorageFiles example_api ''pictures'' [] = Resolved []"
    using getStorageFiles_collects [of _ example_api "[]"] p by blast
  moreover have "getStorageFiles (example_api\<lparr>videoStorage := None\<rparr>) ''videos'' [] = Resolved []"
    using getStorageFiles_collects [of _ "example_api\<lparr>videoStorage := None\<rparr>" "[]"] vn by blast
  moreover have "getStorageFiles (example_api\<lparr>musicStorage := None\<rparr>) ''music'' [] = Resolved []"
    using getStorageFiles_collects [of _ "example_api\<lparr>musicStorage := None\<rparr>" "[]"] mn by blast
  moreover have "getStorageFiles example_api ''documents'' [] = Resolved []"
    using getStorageFiles_collects [of "''documents''" example_api "[]"] d by blast
  ultimately show ?thesis by blast
qed

text \<open>
  C2 (as amended). For the platform call each accessor makes inside its \<^verbatim>\<open>try\<close>
  (\<^verbatim>\<open>createLock().get\<close>, \<^verbatim>\<open>createLock().set\<close>, \<^verbatim>\<open>enumerate\<close> of each of the three
  storages, \<^verbatim>\<open>getInstalled\<close>): an exception thrown by the call is caught and turned into the
  fallback value (\<^verbatim>\<open>null\<close>, \<^verbatim>\<open>false\<close>, the empty list, \<^verbatim>\<open>false\<close>), while an error the
  provider signals on the request (\<^verbatim>\<open>onerror\<close>) rejects the returned promise with
  \<^verbatim>\<open>request.error\<close>. The error signal of the later \<^verbatim>\<open>launch()\<close> request of \<^verbatim>\<open>launchApp\<close>
  is not observed: the promise is resolved with \<^verbatim>\<open>true\<close>.
\<close>

theorem provider_errors:
  "(settings api = Some p \<and> lock_get p key = Throws e \<longrightarrow> getSystemSetting api key = Resolved Null) \<and>
   (settings api = Some p \<and> lock_get p key = Fails e \<longrightarrow> getSystemSetting api key = Rejected e) \<and>
   (settings api = Some p \<and> lock_set p key v = Throws e \<longrightarrow> setSystemSetting api key v = Resolved False) \<and>
   (settings api = Some p \<and> lock_set p key v = Fails e \<longrightarrow> setSystemSetting api key v = Rejected e) \<and>
   (storage path = EnumThrows e \<longrightarrow>
      (videoStorage api = Some storage \<longrightarrow> getStorageFiles api ''videos'' path = Resolved []) \<and>
      (musicStorage api = Some storage \<longrightarrow> getStorageFiles api ''music'' path = Resolved []) \<and>
      (pictureStorage api = Some storage \<longrightarrow> getStorageFiles api ''pictures'' path = Resolved [])) \<and>
   (list_all truthy fs \<and> storage path = Cursor (map OnSuccess fs @ OnError e # rest) \<longrightarrow>
      (videoStorage api = Some storage \<longrightarrow> getStorageFiles api ''videos'' path = Rejected e) \<and>
      (musicStorage api = Some storage \<longrightarrow> getStorageFiles api ''music'' path = Rejected e) \<and>
      (pictureStorage api = Some storage \<longrightarrow> getStorageFiles api ''pictures'' path = Rejected e)) \<and>
   (apps api \<and> getInstalled api = Throws e \<longrightarrow> launchApp api appOrigin = Resolved False) \<and>
   (apps api \<and> getInstalled api = Fails e \<longrightarrow> launchApp api appOrigin = Rejected e) \<and>
   (apps api \<and> getInstalled api = Succeeds installed \<and>
      find (\<lambda>a. origin a = appOrigin) installed = Some targetApp \<and> launch targetApp = Fails e \<longrightarrow>
      launchApp api appOrigin = Resolved True)"
  by (simp add: getSystemSetting_def setSystemSetting_def launchApp_def drain_failed
      getStorageFiles_videos getStorageFiles_music getStorageFiles_pictures)

text \<open>
  The claim as first stated fails for a provider that signals its error through
  \<^verbatim>\<open>onerror\<close>: the promises of \<^verbatim>\<open>getSystemSetting\<close>, \<^verbatim>\<open>setSystemSetting\<close> and
  \<^verbatim>\<open>getStorageFiles\<close> are rejected with the provider's error.
\<close>

theorem provider_errors_counterexample:
  "getSystemSetting example_api ''deviceinfo.os'' = Rejected (Error ''denied'') \<and>
   setSystemSetting example_api ''volume'' ''3'' = Rejected (Error ''denied'') \<and>
   getStorageFiles example_api ''music'' [] = Rejected (Error ''unreadable'')"
  by (simp add: getSystemSetting_def setSystemSetting_def getStorageFiles_music example_music_def
      example_api_def failing_settings_def)

theorem provider_errors_witness:
  "getSystemSetting (example_api\<lparr>settings := Some throwing_settings\<rparr>) ''deviceinfo.os'' = Resolved Null \<and>
   getSystemSetting example_api ''deviceinfo.os'' = Rejected (Error ''denied'') \<and>
   setSystemSetting (example_api\<lparr>settings := Some throwing_settings\<rparr>) ''volume'' ''3'' = Resolved False \<and>
   setSystemSetting example_api ''volume'' ''3'' = Rejected (Error ''denied'') \<and>
   getStorageFiles (example_api\<lparr>videoStorage := Some example_throwing\<rparr>) ''videos'' [] = Resolved [] \<and>
   getStorageFiles (example_api\<lparr>musicStorage := Some example_throwing\<rparr>) ''music'' [] = Resolved [] \<and>
   getStorageFiles (example_api\<lparr>pictureStorage := Some example_throwing\<rparr>) ''pictures'' [] = Resolved [] \<and>
   getStorageFiles (example_api\<lparr>videoStorage := Some example_music\<rparr>) ''videos'' [] = Rejected (Error ''unreadable'') \<and>
   getStorageFiles example_api ''music'' [] = Rejected (Error ''unreadable'') \<and>
   getStorageFiles (example_api\<lparr>pictureStorage := Some example_music\<rparr>) ''pictures'' [] = Rejected (Error ''unreadable'') \<and>
   launchApp (example_api\<lparr>getInstalled := Throws (Error ''denied'')\<rparr>) ''app://video'' = Resolved False \<and>
   launchApp (example_api\<lparr>getInstalled := Fails (Error ''denied'')\<rparr>) ''app://video'' = Rejected (Error ''denied'') \<and>
   launchApp example_api ''app://video'' = Resolved True"
proof -
  let ?thr = "example_api\<lparr>settings := Some throwing_settings\<rparr>"
  have st: "settings ?thr = Some throwing_settings" by simp
  have sf: "settings example_api = Some failing_settings" by (simp add: example_api_def)
  have gt: "lock_get throwing_settings ''deviceinfo.os'' = Throws (Error ''no lock'')"
    and stt: "lock_set throwing_settings ''volume'' ''3'' = Throws (Error ''no lock'')"
    by (simp_all add: throwing_settings_def)
  have gf: "lock_get failing_settings ''deviceinfo.os'' = Fails (Error ''denied'')"
    and sff: "lock_set failing_settings ''volume'' ''3'' = Fails (Error ''denied'')"
    by (simp_all add: failing_settings_def)
  have thr: "example_throwing [] = EnumThrows (Error ''no storage'')"
    by (simp add: example_throwing_def)
  have tv: "videoStorage (example_api\<lparr>videoStorage := Some example_throwing\<rparr>) = Some example_throwing"
    and tm: "musicStorage (example_api\<lparr>musicStorage := Some example_throwing\<rparr>) = Some example_throwing"
    and tp: "pictureStorage (example_api\<lparr>pictureStorage := Some example_throwing\<rparr>) = Some example_throwing"
    by simp_all
  have t: "list_all truthy [JObject ''a'']" by simp
  have c: "example_music [] =
      Cursor (map OnSuccess [JObject ''a''] @ OnError (Error ''unreadable'') # [OnSuccess (JObject ''b''), OnSuccess JNull])"
    by (simp add: example_music_def)
  have fv: "videoStorage (example_api\<lparr>videoStorage := Some example_music\<rparr>) = Some example_music"
    and fm: "musicStorage example_api = Some example_music"
    and fp: "pictureStorage (example_api\<lparr>pictureStorage := Some example_music\<rparr>) = Some example_music"
    by (simp_all add: example_api_def)
  have a0: "apps example_api" and i0: "getInstalled example_api = Succeeds example_apps"
    and a1: "apps (example_api\<lparr>getInstalled := Fails (Error ''denied'')\<rparr>)"
    and a2: "apps (example_api\<lparr>getInstalled := Throws (Error ''denied'')\<rparr>)"
    by (simp_all add: example_api_def)
  have i1: "getInstalled (example_api\<lparr>getInstalled := Fails (Error ''denied'')\<rparr>) = Fails (Error ''denied'')"
    and i2: "getInstalled (example_api\<lparr>getInstalled := Throws (Error ''denied'')\<rparr>) = Throws (Error ''denied'')"
    by simp_all
  have f: "find (\<lambda>a. origin a = ''app://video'') example_apps =
       Some \<lparr>origin = ''app://video'', launch = Fails (Error ''launch failed'')\<rparr>"
    and l: "launch \<lparr>origin = ''app://video'', launch = Fails (Error ''launch failed'')\<rparr> = Fails (Error ''launch failed'')"
    by (simp_all add: example_apps_def)
  have r1: "getSystemSetting ?thr ''deviceinfo.os'' = Resolved Null"
    by (rule provider_errors [THEN conjunct1, THEN mp, OF conjI [OF st gt]])
  have r2: "getSystemSetting example_api ''deviceinfo.os'' = Rejected (Error ''denied'')"
    by (rule provider_errors [THEN conjunct2, THEN conjunct1, THEN mp, OF conjI [OF sf gf]])
  have r3: "setSystemSetting ?thr ''volume'' ''3'' = Resolved False"
    by (rule provider_errors [THEN conjunct2, THEN conjunct2, THEN conjunct1, THEN mp, OF conjI [OF st stt]])
  have r4: "setSystemSetting example_api ''volume'' ''3'' = Rejected (Error ''denied'')"
    by (rule provider_errors [THEN conjunct2, THEN conjunct2, THEN conjunct2, THEN conjunct1, THEN mp, OF conjI [OF sf sff]])
  have r5: "getStorageFiles (example_api\<lparr>videoStorage := Some example_throwing\<rparr>) ''videos'' [] = Resolved []"
    by (rule provider_errors [where storage = example_throwing and path = "[]", THEN conjunct2, THEN conjunct2, THEN conjunct2, THEN conjunct2, THEN conjunct1, THEN mp, OF thr, THEN conjunct1, THEN mp, OF tv])
  have r6: "getStorageFiles (example_api\<lparr>musicStorage := Some example_throwing\<rparr>) ''music'' [] = Resolved []"
    by (rule provider_errors [where storage = example_throwing and path = "[]", THEN conjunct2, THEN conjunct2, THEN conjunct2, THEN conjunct2, THEN conjunct1, THEN mp, OF thr, THEN conjunct2, THEN conjunct1, THEN mp, OF tm])
  have r7: "getStorageFiles (example_api\<lparr>pictureStorage := Some example_throwing\<rparr>) ''pictures'' [] = Resolved []"
    by (rule provider_errors [where storage = example_throwing and path = "[]", THEN conjunct2, THEN conjunct2, THEN conjunct2, THEN conjunct2, THEN conjunct1, THEN mp, OF thr, THEN conjunct2, THEN conjunct2, THEN mp, OF tp])
  have r8: "getStorageFiles (example_api\<lparr>videoStorage := Some example_music\<rparr>) ''videos'' [] = Rejected (Error ''unreadable'')"
    by (rule provider_errors [where storage = example_music and path = "[]", THEN conjunct2, THEN conjunct2, THEN conjunct2, THEN conjunct2, THEN conjunct2, THEN conjunct1, THEN mp, OF conjI [OF t c], THEN conjunct1, THEN mp, OF fv])
  have r9: "getStorageFiles example_api ''music'' [] = Rejected (Error ''unreadable'')"
    by (rule provider_errors [where storage = example_music and path = "[]", THEN conjunct2, THEN conjunct2, THEN conjunct2, THEN conjunct2, THEN conjunct2, THEN conjunct1, THEN mp, OF conjI [OF t c], THEN conjunct2, THEN conjunct1, THEN mp, OF fm])
  have r10: "getStorageFiles (example_api\<lparr>pictureStorage := Some example_music\<rparr>) ''pictures'' [] = Rejected (Error ''unreadable'')"
    by (rule provider_errors [where storage = example_music and path = "[]", THEN conjunct2, THEN conjunct2, THEN conjunct2, THEN conjunct2, THEN conjunct2, THEN conjunct1, THEN mp, OF conjI [OF t c], THEN conjunct2, THEN conjunct2, THEN mp, OF fp])
  have r11: "launchApp (example_api\<lparr>getInstalled := Throws (Error ''denied'')\<rparr>) ''app://video'' = Resolved False"
    by (rule provider_errors [THEN conjunct2, THEN conjunct2, THEN conjunct2, THEN conjunct2, THEN conjunct2, THEN conjunct2, THEN conjunct1, THEN mp, OF conjI [OF a2 i2]])
  have r12: "launchApp (example_api\<lparr>getInstalled := Fails (Error ''denied'')\<rparr>) ''app://video'' = Rejected (Error ''denied'')"
    by (rule provider_errors [THEN conjunct2, THEN conjunct2, THEN conjunct2, THEN conjunct2, THEN conjunct2, THEN conjunct2, THEN conjunct2, THEN conjunct1, THEN mp, OF conjI [OF a1 i1]])
  have r13: "launchApp example_api ''app://video'' = Resolved True"
    by (rule provider_errors [THEN conjunct2, THEN conjunct2, THEN conjunct2, THEN conjunct2, THEN conjunct2, THEN conjunct2, THEN conjunct2, THEN conjunct2, THEN mp, OF conjI [OF a0 conjI [OF i0 conjI [OF f l]]]])
  from r1 r2 r3 r4 r5 r6 r7 r8 r9 r10 r11 r12 r13 show ?thesis
    by (intro conjI)
qed

text \<open>
  C7 (as amended). \<^verbatim>\<open>launchApp\<close> resolves with \<^verbatim>\<open>false\<close> when app management is not
  available, and when the lookup of the installed apps succeeds and none has the origin asked
  for. It resolves with \<^verbatim>\<open>true\<close> exactly when app management is available, the lookup
  succeeds, an app with that origin is found and the call of its \<^verbatim>\<open>launch()\<close> does not
  throw, whatever the launch request signals afterwards.
\<close>

theorem launchApp_outcome:
  "(\<not> apps api \<longrightarrow> launchApp api appOrigin = Resolved False) \<and>
   (apps api \<and> getInstalled api = Succeeds installed \<and>
      find (\<lambda>a. origin a = appOrigin) installed = None \<longrightarrow> launchApp api appOrigin = Resolved False) \<and>
   (launchApp api appOrigin = Resolved True \<longleftrightarrow>
      apps api \<and>
      (\<exists>installed targetApp. getInstalled api = Succeeds installed \<and>
         find (\<lambda>a. origin a = appOrigin) installed = Some targetApp \<and>
         (\<forall>e. launch targetApp \<noteq> Throws e)))"
  by (auto simp: launchApp_def split: request.splits option.splits)


text \<open>
  The claim as first stated fails for an installed app whose launch fails: the promise is
  resolved with \<^verbatim>\<open>true\<close> all the same.
\<close>

theorem launchApp_outcome_counterexample:
  "launchApp example_api ''app://video'' = Resolved True \<and>
   find (\<lambda>a. origin a = ''app://video'') example_apps =
     Some \<lparr>origin = ''app://video'', launch = Fails (Error ''launch failed'')\<rparr>"
  by (simp add: launchApp_def example_api_def example_apps_def)


theorem launchApp_outcome_witness:
  "launchApp (example_api\<lparr>apps := False\<rparr>) ''app://video'' = Resolved False \<and>
   launchApp example_api ''app://photos'' = Resolved False \<and>
   launchApp example_api ''app://video'' = Resolved True"
proof -
  have a: "apps example_api" "getInstalled example_api = Succeeds example_apps"
    by (simp_all add: example_api_def)
  have f: "find (\<lambda>a. origin a = ''app://photos'') example_apps = None"
    "find (\<lambda>a. origin a = ''app://video'') example_apps =
       Some \<lparr>origin = ''app://video'', launch = Fails (Error ''launch failed'')\<rparr>"
    by (simp_all add: example_apps_def)
  from launchApp_outcome [of "example_api\<lparr>apps := False\<rparr>" "''app://video''"]
    launchApp_outcome [of example_api "''app://photos''" example_apps]
    launchApp_outcome [of example_api "''app://video''"]
    a f
  show ?thesis by simp
qed

section \<open>Properties of the Panasonic TV API\<close>

lemma getFirefoxOSSystemInfo_never_rejects: "getFirefoxOSSystemInfo w \<noteq> Rejected e"
  by (simp add: getFirefoxOSSystemInfo_def split: option.splits promise.splits)

lemma getSystemInfo_never_rejects: "getSystemInfo env \<noteq> Async (Rejected e)"
  by (simp add: getSystemInfo_def getFirefoxOSSystemInfo_never_rejects split: option.splits native_info.splits)

lemma getSystemInfo_unavailable:
  "panasonic_system env = None \<Longrightarrow> \<not> mozApps env \<or> firefoxOSAPI env = None \<Longrightarrow>
   getSystemInfo env = Direct fallback_info"
  by (auto simp: getSystemInfo_def)

text \<open>
  C5. Without \<^verbatim>\<open>window.panasonic\<close>, with \<^verbatim>\<open>navigator.mozApps\<close> and a Firefox OS API object
  whose settings provider signals an error, \<^verbatim>\<open>getSystemInfo\<close> returns a promise that
  resolves with \<^verbatim>\<open>null\<close>: neither a record nor the placeholder.
\<close>

theorem getSystemInfo_null:
  "getSystemInfo example_env = Async (Resolved None)"
  by (simp add: getSystemInfo_def getFirefoxOSSystemInfo_def getSystemSetting_def example_env_def
      example_api_def failing_settings_def)

end
